theory Spec2Isabelle
  imports Main "HOL-Library.AList" "HOL-Library.Multiset"
begin

section \<open>The number type of the exporter: Go's float64\<close>

text \<open>
  Every numeric field of \<^verbatim>\<open>nodes.go\<close> is a Go \<^verbatim>\<open>float64\<close> (IEEE 754
  binary64) and every accumulation is \<^verbatim>\<open>+=\<close> on that type, rounding to nearest
  with ties to even.  The aggregation functions below are written once, over any type
  with \<open>0\<close>, \<open>+\<close> and \<open><\<close> and no law assumed of them, so that what is proved of
  them holds of binary64 whatever the rounding does.  The concrete type \<open>float64\<close>
  is the instance the program runs at.

  A finite value \<open>Finite s m e\<close> stands for \<open>(-1)\<^sup>s * m * 2\<^sup>e\<close>.  The
  representation is kept canonical: \<open>m\<close> is odd, or \<open>m = 0\<close> and \<open>e = 0\<close> (the two
  zeros \<open>+0\<close> and \<open>-0\<close>); a binary64 value has \<open>m < 2\<^sup>5\<^sup>3\<close>,
  \<open>-1074 \<le> e\<close> and magnitude below \<open>2\<^sup>1\<^sup>0\<^sup>2\<^sup>4\<close>.
\<close>

datatype float64 = Finite bool nat int | Infinity bool | NaN

fun bit_len :: "nat \<Rightarrow> nat" where
  "bit_len n = (if n = 0 then 0 else Suc (bit_len (n div 2)))"

fun normalise :: "nat \<Rightarrow> int \<Rightarrow> nat \<times> int" where
  "normalise m e =
     (if m = 0 then (0, 0)
      else if even m then normalise (m div 2) (e + 1)
      else (m, e))"

text \<open>
  \<open>round_f64 s m e\<close> rounds the exact magnitude \<open>m * 2\<^sup>e\<close> to binary64: keep the
  53 leading bits of \<open>m\<close>, round the dropped part \<open>r\<close> to nearest with ties to the
  even significand, overflow to infinity from \<open>2\<^sup>1\<^sup>0\<^sup>2\<^sup>4\<close> on.  It is used with
  \<open>-1074 \<le> e\<close> only (the exact sum of two binary64 values is a multiple of
  \<open>2\<^sup>-\<^sup>1\<^sup>0\<^sup>7\<^sup>4\<close>), where no subnormal rounding arises.
\<close>

definition round_f64 :: "bool \<Rightarrow> nat \<Rightarrow> int \<Rightarrow> float64" where
  "round_f64 s m e =
     (let j = (if 53 < bit_len m then bit_len m - 53 else 0);
          q = m div 2 ^ j;
          r = m mod 2 ^ j;
          q' = (if 2 ^ j < 2 * r \<or> (2 * r = 2 ^ j \<and> odd q) then q + 1 else q)
      in if 1024 < int (bit_len q') + e + int j then Infinity s
         else (case normalise q' (e + int j) of (m', e') \<Rightarrow> Finite s m' e'))"

fun fadd :: "float64 \<Rightarrow> float64 \<Rightarrow> float64" where
  "fadd NaN y = NaN"
| "fadd x NaN = NaN"
| "fadd (Infinity s) (Infinity t) = (if s = t then Infinity s else NaN)"
| "fadd (Infinity s) (Finite t n f) = Infinity s"
| "fadd (Finite s m e) (Infinity t) = Infinity t"
| "fadd (Finite s m e) (Finite t n f) =
     (let g = min e f;
          a = m * 2 ^ nat (e - g);
          b = n * 2 ^ nat (f - g)
      in if s = t then round_f64 s (a + b) g
         else if a = b then Finite False 0 0
         else if b < a then round_f64 s (a - b) g
         else round_f64 t (b - a) g)"

fun signed_units :: "bool \<Rightarrow> nat \<Rightarrow> int" where
  "signed_units s a = (if s then - int a else int a)"

fun flt :: "float64 \<Rightarrow> float64 \<Rightarrow> bool" where
  "flt NaN y = False"
| "flt x NaN = False"
| "flt (Infinity s) (Infinity t) = (s \<and> \<not> t)"
| "flt (Infinity s) (Finite t n f) = s"
| "flt (Finite s m e) (Infinity t) = (\<not> t)"
| "flt (Finite s m e) (Finite t n f) =
     (let g = min e f
      in signed_units s (m * 2 ^ nat (e - g)) < signed_units t (n * 2 ^ nat (f - g)))"

fun fle :: "float64 \<Rightarrow> float64 \<Rightarrow> bool" where
  "fle NaN y = False"
| "fle x NaN = False"
| "fle (Infinity s) (Infinity t) = (s \<or> \<not> t)"
| "fle (Infinity s) (Finite t n f) = s"
| "fle (Finite s m e) (Infinity t) = (\<not> t)"
| "fle (Finite s m e) (Finite t n f) =
     (let g = min e f
      in signed_units s (m * 2 ^ nat (e - g)) \<le> signed_units t (n * 2 ^ nat (f - g)))"

instantiation float64 :: "{zero, plus, ord}"
begin

definition zero_float64 :: float64 where
  "zero_float64 = Finite False 0 0"

definition plus_float64 :: "float64 \<Rightarrow> float64 \<Rightarrow> float64" where
  "plus_float64 x y = fadd x y"

definition less_float64 :: "float64 \<Rightarrow> float64 \<Rightarrow> bool" where
  "less_float64 x y = flt x y"

definition less_eq_float64 :: "float64 \<Rightarrow> float64 \<Rightarrow> bool" where
  "less_eq_float64 x y = fle x y"

instance ..

end

text \<open>The binary64 value of a natural number (exact below \<open>2\<^sup>5\<^sup>3\<close>, rounded above).\<close>

definition f64_of_nat :: "nat \<Rightarrow> float64" where
  "f64_of_nat n = round_f64 False n 0"

fun valid_f64 :: "float64 \<Rightarrow> bool" where
  "valid_f64 (Finite s m e) =
     ((odd m \<or> (m = 0 \<and> e = 0)) \<and> m < 2 ^ 53 \<and> - 1074 \<le> e \<and> int (bit_len m) + e \<le> 1024)"
| "valid_f64 (Infinity s) = True"
| "valid_f64 NaN = True"


section \<open>Data model of \<^verbatim>\<open>nodes.go\<close>\<close>

text \<open>
  The structs are records; the number type \<open>'a\<close> stands for \<^verbatim>\<open>float64\<close>.
  A Go \<^verbatim>\<open>[]byte\<close> or \<^verbatim>\<open>string\<close> is a \<open>string\<close>; a nil slice is the empty list.
\<close>

type_synonym bytes = string

record 'a NodeMetrics =
  Hostname :: string
  Cpus :: 'a
  RealMemory :: 'a
  FreeMemory :: 'a
  Partitions :: "string list"
  State :: string
  AllocMemory :: 'a
  AllocCpus :: 'a
  IdleCpus :: 'a
  Weight :: 'a
  CpuLoad :: 'a
  Architecture :: string

text \<open>\<open>Meta\<close> is a \<^verbatim>\<open>map[string]interface{}\<close> that the program never reads: a type parameter.\<close>

record ('m, 'a) sinfoResponse =
  Meta :: 'm
  Errors :: "string list"
  Nodes :: "'a NodeMetrics list"

text \<open>
  A Go \<^verbatim>\<open>error\<close> is either made here by \<^verbatim>\<open>errors.New\<close> or comes from outside
  the file (from \<^verbatim>\<open>json.Unmarshal\<close> or the fetcher); \<open>Error\<close> is its message.
\<close>

datatype error = errors_New string | foreign_error string

fun Error :: "error \<Rightarrow> string" where
  "Error (errors_New msg) = msg"
| "Error (foreign_error msg) = msg"

text \<open>One call \<^verbatim>\<open>slog.Error(msg, args...)\<close>.\<close>

datatype log_record = slog_Error string "string list"

text \<open>
  A Go map from strings: an association list with distinct keys, a new key going to the
  end.  Go leaves the order in which \<^verbatim>\<open>range\<close> visits a map unspecified; \<open>Collect\<close>
  takes that order as a parameter.
\<close>

type_synonym 'v go_map = "(string \<times> 'v) list"

definition index_or :: "'v \<Rightarrow> 'v go_map \<Rightarrow> string \<Rightarrow> 'v" where
  "index_or zero_value m k = (case map_of m k of None \<Rightarrow> zero_value | Some v \<Rightarrow> v)"

section \<open>The parser\<close>

text \<open>
  \<^verbatim>\<open>json.Unmarshal\<close> belongs to Go's standard library: it is the parameter
  \<open>json_Unmarshal\<close>, giving either its error or the decoded \<^verbatim>\<open>sinfoResponse\<close>.
  The result is Go's pair \<^verbatim>\<open>([]NodeMetrics, error)\<close>, with the log lines written.
\<close>

definition parseNodeMetrics ::
  "(bytes \<Rightarrow> error + ('m, 'a) sinfoResponse) \<Rightarrow> bytes \<Rightarrow>
     ('a NodeMetrics list \<times> error option) \<times> log_record list" where
  "parseNodeMetrics json_Unmarshal jsonNodeList =
     (case json_Unmarshal jsonNodeList of
        Inl err \<Rightarrow> (([], Some err), [slog_Error ''Unmarshaling node metrics %q'' [Error err]])
      | Inr squeue \<Rightarrow>
          (case Errors squeue of
             [] \<Rightarrow> ((Nodes squeue, None), [])
           | e0 # es \<Rightarrow>
               (([], Some (errors_New e0)),
                map (\<lambda>e. slog_Error ''Api error response %q'' [e]) (Errors squeue))))"

section \<open>The aggregators\<close>

record 'a PartitionMetrics =
  Cpus :: 'a
  RealMemory :: 'a
  FreeMemory :: 'a
  AllocMemory :: 'a
  AllocCpus :: 'a
  CpuLoad :: 'a
  IdleCpus :: 'a
  Weight :: 'a

text \<open>\<^verbatim>\<open>new(PartitionMetrics)\<close>: every field zero.\<close>

definition new_PartitionMetrics :: "'a::zero PartitionMetrics" where
  "new_PartitionMetrics =
     \<lparr>Cpus = 0, RealMemory = 0, FreeMemory = 0, AllocMemory = 0,
      AllocCpus = 0, CpuLoad = 0, IdleCpus = 0, Weight = 0\<rparr>"

text \<open>The eight \<^verbatim>\<open>+=\<close> of the inner loop body.\<close>

definition accumulate :: "'a::plus NodeMetrics \<Rightarrow> 'a PartitionMetrics \<Rightarrow> 'a PartitionMetrics" where
  "accumulate node part =
     \<lparr>Cpus = PartitionMetrics.Cpus part + NodeMetrics.Cpus node,
      RealMemory = PartitionMetrics.RealMemory part + NodeMetrics.RealMemory node,
      FreeMemory = PartitionMetrics.FreeMemory part + NodeMetrics.FreeMemory node,
      AllocMemory = PartitionMetrics.AllocMemory part + NodeMetrics.AllocMemory node,
      AllocCpus = PartitionMetrics.AllocCpus part + NodeMetrics.AllocCpus node,
      CpuLoad = PartitionMetrics.CpuLoad part + NodeMetrics.CpuLoad node,
      IdleCpus = PartitionMetrics.IdleCpus part + NodeMetrics.IdleCpus node,
      Weight = PartitionMetrics.Weight part + NodeMetrics.Weight node\<rparr>"

text \<open>
  The inner loop body for one partition name \<open>p\<close> of \<open>node\<close>: look \<open>p\<close> up, create
  the entry when it is missing, add the node's fields to it.
\<close>

definition add_to_partition ::
  "'a::{zero,plus} NodeMetrics \<Rightarrow> 'a PartitionMetrics go_map \<Rightarrow> string \<Rightarrow> 'a PartitionMetrics go_map" where
  "add_to_partition node partitions p =
     AList.update p (accumulate node (index_or new_PartitionMetrics partitions p)) partitions"

definition fetchNodePartitionMetrics ::
  "'a::{zero,plus} NodeMetrics list \<Rightarrow> 'a PartitionMetrics go_map" where
  "fetchNodePartitionMetrics nodes =
     foldl (\<lambda>partitions node. foldl (add_to_partition node) partitions (Partitions node)) [] nodes"

record 'a CpuSummaryMetrics =
  Total :: 'a
  Idle :: 'a
  Load :: 'a
  PerState :: "'a go_map"

text \<open>
  The loop body of \<^verbatim>\<open>fetchNodeTotalCpuMetrics\<close>; \<^verbatim>\<open>m[k] += v\<close> reads the zero
  value for a key that is not in the map yet.
\<close>

definition cpu_step :: "'a::{zero,plus} CpuSummaryMetrics \<Rightarrow> 'a NodeMetrics \<Rightarrow> 'a CpuSummaryMetrics" where
  "cpu_step cpuSummaryMetrics node =
     \<lparr>Total = Total cpuSummaryMetrics + NodeMetrics.Cpus node,
      Idle = Idle cpuSummaryMetrics + NodeMetrics.IdleCpus node,
      Load = Load cpuSummaryMetrics + NodeMetrics.CpuLoad node,
      PerState =
        AList.update (State node)
          (index_or 0 (PerState cpuSummaryMetrics) (State node) + NodeMetrics.Cpus node)
          (PerState cpuSummaryMetrics)\<rparr>"

definition fetchNodeTotalCpuMetrics :: "'a::{zero,plus} NodeMetrics list \<Rightarrow> 'a CpuSummaryMetrics" where
  "fetchNodeTotalCpuMetrics nodes =
     foldl cpu_step \<lparr>Total = 0, Idle = 0, Load = 0, PerState = []\<rparr> nodes"

record 'a MemSummaryMetrics =
  AllocMemory :: 'a
  FreeMemory :: 'a
  RealMemory :: 'a

definition mem_step :: "'a::plus MemSummaryMetrics \<Rightarrow> 'a NodeMetrics \<Rightarrow> 'a MemSummaryMetrics" where
  "mem_step memSummary node =
     \<lparr>AllocMemory = MemSummaryMetrics.AllocMemory memSummary + NodeMetrics.AllocMemory node,
      FreeMemory = MemSummaryMetrics.FreeMemory memSummary + NodeMetrics.FreeMemory node,
      RealMemory = MemSummaryMetrics.RealMemory memSummary + NodeMetrics.RealMemory node\<rparr>"

definition fetchNodeTotalMemMetrics :: "'a::{zero,plus} NodeMetrics list \<Rightarrow> 'a MemSummaryMetrics" where
  "fetchNodeTotalMemMetrics nodes =
     foldl mem_step \<lparr>AllocMemory = 0, FreeMemory = 0, RealMemory = 0\<rparr> nodes"

section \<open>The collector\<close>

text \<open>The fourteen \<^verbatim>\<open>*prometheus.Desc\<close> fields of \<^verbatim>\<open>NodesCollector\<close>, as \<^verbatim>\<open>NewNodeCollecter\<close> builds them.\<close>

datatype desc =
    partitionCpus | partitionRealMemory | partitionFreeMemory | partitionAllocMemory
  | partitionAllocCpus | partitionIdleCpus | partitionWeight | partitionCpuLoad
  | cpusPerState | totalCpus | totalIdleCpus | totalCpuLoad
  | totalRealMemory | totalFreeMemory | totalAllocMemory

fun fqName :: "desc \<Rightarrow> string" where
  "fqName partitionCpus = ''slurm_partition_total_cpus''"
| "fqName partitionRealMemory = ''slurm_partition_real_mem''"
| "fqName partitionFreeMemory = ''slurm_partition_free_mem''"
| "fqName partitionAllocMemory = ''slurm_partition_alloc_mem''"
| "fqName partitionAllocCpus = ''slurm_partition_alloc_cpus''"
| "fqName partitionIdleCpus = ''slurm_partition_idle_cpus''"
| "fqName partitionWeight = ''slurm_partition_weight''"
| "fqName partitionCpuLoad = ''slurm_partition_cpu_load''"
| "fqName totalCpus = ''slurm_cpus_total''"
| "fqName totalIdleCpus = ''slurm_cpus_idle''"
| "fqName totalCpuLoad = ''slurm_cpu_load''"
| "fqName cpusPerState = ''slurm_cpus_per_state''"
| "fqName totalRealMemory = ''slurm_mem_real''"
| "fqName totalFreeMemory = ''slurm_mem_free''"
| "fqName totalAllocMemory = ''slurm_mem_alloc''"

fun variableLabels :: "desc \<Rightarrow> string list" where
  "variableLabels partitionCpus = [''partition'']"
| "variableLabels partitionRealMemory = [''partition'']"
| "variableLabels partitionFreeMemory = [''partition'']"
| "variableLabels partitionAllocMemory = [''partition'']"
| "variableLabels partitionAllocCpus = [''partition'']"
| "variableLabels partitionIdleCpus = [''partition'']"
| "variableLabels partitionWeight = [''partition'']"
| "variableLabels partitionCpuLoad = [''partition'']"
| "variableLabels totalCpus = []"
| "variableLabels totalIdleCpus = []"
| "variableLabels totalCpuLoad = []"
| "variableLabels cpusPerState = [''state'']"
| "variableLabels totalRealMemory = []"
| "variableLabels totalFreeMemory = []"
| "variableLabels totalAllocMemory = []"

datatype ValueType = CounterValue | GaugeValue | UntypedValue

text \<open>
  What is sent on the channel: a constant metric
  \<^verbatim>\<open>prometheus.MustNewConstMetric(desc, valueType, value, labelValues...)\<close>, or the
  counter \<^verbatim>\<open>nc.nodeScrapeErrors\<close> with the count it holds.  (\<^verbatim>\<open>MustNewConstMetric\<close>
  panics when the number of label values differs from the descriptor's; lemma
  \<open>Collect_labels_match\<close> shows that no call of \<open>Collect\<close> does.)
\<close>

datatype 'a Metric =
    MustNewConstMetric desc ValueType 'a "string list"
  | Counter nat

text \<open>
  The state of a \<^verbatim>\<open>NodesCollector\<close>: the cache (an \<^verbatim>\<open>*AtomicThrottledCache\<close>, whose
  type is declared elsewhere: a type parameter), the fetcher and the error counter
  (\<^verbatim>\<open>Inc\<close> adds one).  \<^verbatim>\<open>SlurmFetcher\<close> is an interface with the one method
  \<^verbatim>\<open>Fetch() ([]byte, error)\<close>; a call reads and changes the world outside the
  program, of type \<open>'w\<close>.
\<close>

record ('c, 'w) NodesCollector =
  cache :: 'c
  fetcher :: "'w \<Rightarrow> (bytes \<times> error option) \<times> 'w"
  nodeScrapeErrors :: nat

text \<open>The body of the \<^verbatim>\<open>range partitionMetrics\<close> loop: eight guarded sends.\<close>

definition emit_partition :: "string \<times> 'a::{zero,ord} PartitionMetrics \<Rightarrow> 'a Metric list" where
  "emit_partition = (\<lambda>(part, metric).
     (if 0 < PartitionMetrics.Cpus metric
      then [MustNewConstMetric partitionCpus GaugeValue (PartitionMetrics.Cpus metric) [part]] else []) @
     (if 0 < PartitionMetrics.RealMemory metric
      then [MustNewConstMetric partitionRealMemory GaugeValue (PartitionMetrics.RealMemory metric) [part]] else []) @
     (if 0 < PartitionMetrics.FreeMemory metric
      then [MustNewConstMetric partitionFreeMemory GaugeValue (PartitionMetrics.FreeMemory metric) [part]] else []) @
     (if 0 < PartitionMetrics.AllocMemory metric
      then [MustNewConstMetric partitionAllocMemory GaugeValue (PartitionMetrics.AllocMemory metric) [part]] else []) @
     (if 0 < PartitionMetrics.AllocCpus metric
      then [MustNewConstMetric partitionAllocCpus GaugeValue (PartitionMetrics.AllocCpus metric) [part]] else []) @
     (if 0 < PartitionMetrics.IdleCpus metric
      then [MustNewConstMetric partitionIdleCpus GaugeValue (PartitionMetrics.IdleCpus metric) [part]] else []) @
     (if 0 < PartitionMetrics.Weight metric
      then [MustNewConstMetric partitionWeight GaugeValue (PartitionMetrics.Weight metric) [part]] else []) @
     (if 0 < PartitionMetrics.CpuLoad metric
      then [MustNewConstMetric partitionCpuLoad GaugeValue (PartitionMetrics.CpuLoad metric) [part]] else []))"

text \<open>
  The body of \<^verbatim>\<open>Collect\<close>, before the deferred send: the metrics sent on the channel
  in order, the log lines, the collector and the world afterwards.  \<open>porder\<close> and
  \<open>sorder\<close> are the orders in which the two \<^verbatim>\<open>range\<close> loops visit their maps.
\<close>

definition Collect_body ::
  "(bytes \<Rightarrow> error + ('m, 'a) sinfoResponse) \<Rightarrow>
   ('a PartitionMetrics go_map \<Rightarrow> 'a PartitionMetrics go_map) \<Rightarrow> ('a go_map \<Rightarrow> 'a go_map) \<Rightarrow>
   ('c, 'w) NodesCollector \<Rightarrow> 'w \<Rightarrow>
   ('a::{zero,plus,ord} Metric list \<times> log_record list) \<times> ('c, 'w) NodesCollector \<times> 'w" where
  "Collect_body json_Unmarshal porder sorder nc w =
     (case fetcher nc w of ((sinfo, err), w') \<Rightarrow>
        (case err of
           Some e \<Rightarrow>
             (([], [slog_Error (''Failed to fetch from cli: '' @ Error e) []]),
              nc\<lparr>nodeScrapeErrors := nodeScrapeErrors nc + 1\<rparr>, w')
         | None \<Rightarrow>
             (case parseNodeMetrics json_Unmarshal sinfo of ((nodeMetrics, err'), parse_log) \<Rightarrow>
                (case err' of
                   Some e \<Rightarrow>
                     (([], parse_log @ [slog_Error (''Failed to parse node metrics: '' @ Error e) []]),
                      nc\<lparr>nodeScrapeErrors := nodeScrapeErrors nc + 1\<rparr>, w')
                 | None \<Rightarrow>
                     (let partitionMetrics = fetchNodePartitionMetrics nodeMetrics;
                          nodeCpuMetrics = fetchNodeTotalCpuMetrics nodeMetrics;
                          memMetrics = fetchNodeTotalMemMetrics nodeMetrics
                      in ((concat (map emit_partition (porder partitionMetrics)) @
                           [MustNewConstMetric totalCpus GaugeValue (Total nodeCpuMetrics) [],
                            MustNewConstMetric totalIdleCpus GaugeValue (Idle nodeCpuMetrics) [],
                            MustNewConstMetric totalCpuLoad GaugeValue (Load nodeCpuMetrics) []] @
                           map (\<lambda>(state, cpus). MustNewConstMetric cpusPerState GaugeValue cpus [state])
                             (sorder (PerState nodeCpuMetrics)) @
                           [MustNewConstMetric totalRealMemory GaugeValue (MemSummaryMetrics.RealMemory memMetrics) [],
                            MustNewConstMetric totalFreeMemory GaugeValue (MemSummaryMetrics.FreeMemory memMetrics) [],
                            MustNewConstMetric totalAllocMemory GaugeValue (MemSummaryMetrics.AllocMemory memMetrics) []],
                           parse_log),
                          nc, w'))))))"

text \<open>
  \<^verbatim>\<open>Collect\<close>: the body, then the deferred function, which sends the error counter
  whichever way the body returned.
\<close>

definition Collect ::
  "(bytes \<Rightarrow> error + ('m, 'a) sinfoResponse) \<Rightarrow>
   ('a PartitionMetrics go_map \<Rightarrow> 'a PartitionMetrics go_map) \<Rightarrow> ('a go_map \<Rightarrow> 'a go_map) \<Rightarrow>
   ('c, 'w) NodesCollector \<Rightarrow> 'w \<Rightarrow>
   ('a::{zero,plus,ord} Metric list \<times> log_record list) \<times> ('c, 'w) NodesCollector \<times> 'w" where
  "Collect json_Unmarshal porder sorder nc w =
     (case Collect_body json_Unmarshal porder sorder nc w of ((ch, logged), nc', w') \<Rightarrow>
        ((ch @ [Counter (nodeScrapeErrors nc')], logged), nc', w'))"

text \<open>The metrics one call sends on the channel, and the collector it leaves.\<close>

definition sent :: "('a Metric list \<times> log_record list) \<times> ('c, 'w) NodesCollector \<times> 'w \<Rightarrow> 'a Metric list" where
  "sent r = fst (fst r)"

definition collector_after ::
  "('a Metric list \<times> log_record list) \<times> ('c, 'w) NodesCollector \<times> 'w \<Rightarrow> ('c, 'w) NodesCollector" where
  "collector_after r = fst (snd r)"

definition world_after :: "('a Metric list \<times> log_record list) \<times> ('c, 'w) NodesCollector \<times> 'w \<Rightarrow> 'w" where
  "world_after r = snd (snd r)"

section \<open>Notions the properties are stated with\<close>

text \<open>A \<^verbatim>\<open>range\<close> over a map visits every entry once, in some order.\<close>

definition range_order :: "('v go_map \<Rightarrow> 'v go_map) \<Rightarrow> bool" where
  "range_order visit = (\<forall>m. mset (visit m) = mset m)"

text \<open>
  The sum of a field over a sequence of nodes as the loops compute it: from zero, one
  node after the other, each \<open>+\<close> being the number type's own.
\<close>

definition direct_sum :: "('n \<Rightarrow> 'a::{zero,plus}) \<Rightarrow> 'n list \<Rightarrow> 'a" where
  "direct_sum field ns = foldl (+) 0 (map field ns)"

text \<open>
  The contributions to partition \<open>p\<close>: every node once for each time its partition list
  names \<open>p\<close>, in input order.
\<close>

definition contributions :: "string \<Rightarrow> 'a NodeMetrics list \<Rightarrow> 'a NodeMetrics list" where
  "contributions p nodes =
     concat (map (\<lambda>node. map (\<lambda>q. node) (filter (\<lambda>q. q = p) (Partitions node))) nodes)"

text \<open>The partition aggregate made of the direct sums of the eight fields.\<close>

definition sum_fields :: "'a::{zero,plus} NodeMetrics list \<Rightarrow> 'a PartitionMetrics" where
  "sum_fields ns =
     \<lparr>Cpus = direct_sum NodeMetrics.Cpus ns,
      RealMemory = direct_sum NodeMetrics.RealMemory ns,
      FreeMemory = direct_sum NodeMetrics.FreeMemory ns,
      AllocMemory = direct_sum NodeMetrics.AllocMemory ns,
      AllocCpus = direct_sum NodeMetrics.AllocCpus ns,
      CpuLoad = direct_sum NodeMetrics.CpuLoad ns,
      IdleCpus = direct_sum NodeMetrics.IdleCpus ns,
      Weight = direct_sum NodeMetrics.Weight ns\<rparr>"

text \<open>The eight partition-scoped metrics: descriptor and the aggregate's field it reports.\<close>

definition partition_fields :: "(desc \<times> ('a PartitionMetrics \<Rightarrow> 'a)) list" where
  "partition_fields =
     [(partitionCpus, PartitionMetrics.Cpus),
      (partitionRealMemory, PartitionMetrics.RealMemory),
      (partitionFreeMemory, PartitionMetrics.FreeMemory),
      (partitionAllocMemory, PartitionMetrics.AllocMemory),
      (partitionAllocCpus, PartitionMetrics.AllocCpus),
      (partitionIdleCpus, PartitionMetrics.IdleCpus),
      (partitionWeight, PartitionMetrics.Weight),
      (partitionCpuLoad, PartitionMetrics.CpuLoad)]"

section \<open>Decoding the payload into the structs\<close>





















section \<open>Auxiliary notions\<close>

text \<open>The two loops of \<open>fetchNodePartitionMetrics\<close> started from any map, and the inner
  \<^verbatim>\<open>+=\<close> block run over a list of nodes.\<close>

definition partition_loop ::
  "'a::{zero,plus} PartitionMetrics go_map \<Rightarrow> 'a NodeMetrics list \<Rightarrow> 'a PartitionMetrics go_map" where
  "partition_loop acc nodes =
     foldl (\<lambda>partitions node. foldl (add_to_partition node) partitions (Partitions node)) acc nodes"

definition accumulate_all :: "'a::plus PartitionMetrics \<Rightarrow> 'a NodeMetrics list \<Rightarrow> 'a PartitionMetrics" where
  "accumulate_all pm ns = foldl (\<lambda>pm n. accumulate n pm) pm ns"

text \<open>How a call of \<open>Collect\<close> can fail: at the fetch, or (the fetch having succeeded) at the parse.\<close>

definition fetch_failed :: "('c, 'w) NodesCollector \<Rightarrow> 'w \<Rightarrow> bool" where
  "fetch_failed nc w = (snd (fst (fetcher nc w)) \<noteq> None)"

definition parse_failed ::
  "(bytes \<Rightarrow> error + ('m, 'a) sinfoResponse) \<Rightarrow> ('c, 'w) NodesCollector \<Rightarrow> 'w \<Rightarrow> bool" where
  "parse_failed json_Unmarshal nc w =
     (snd (fst (fetcher nc w)) = None \<and>
      snd (fst (parseNodeMetrics json_Unmarshal (fst (fst (fetcher nc w))))) \<noteq> None)"

text \<open>
  The node record decoded from a payload entry that gives only \<^verbatim>\<open>cpus\<close>, \<^verbatim>\<open>state\<close>
  and \<^verbatim>\<open>partitions\<close>: every other field keeps Go's zero value.
\<close>

definition fixture_node :: "'a::zero \<Rightarrow> string \<Rightarrow> string list \<Rightarrow> 'a NodeMetrics" where
  "fixture_node cpus state partitions =
     \<lparr>Hostname = [], Cpus = cpus, RealMemory = 0, FreeMemory = 0, Partitions = partitions,
      State = state, AllocMemory = 0, AllocCpus = 0, IdleCpus = 0, Weight = 0, CpuLoad = 0,
      Architecture = []\<rparr>"

text \<open>A fetcher stub that always succeeds with the same payload and counts its calls in the world.\<close>

definition counting_fetcher :: "bytes \<Rightarrow> nat \<Rightarrow> (bytes \<times> error option) \<times> nat" where
  "counting_fetcher payload calls = ((payload, None), calls + 1)"

text \<open>Stubs for the examples: a fetcher that always fails, a decoder that gives the same
  errors and nodes whatever the bytes, and the two-node fixture.\<close>

definition failing_fetcher :: "nat \<Rightarrow> (bytes \<times> error option) \<times> nat" where
  "failing_fetcher calls = (([], Some (foreign_error ''exit status 1'')), calls + 1)"

definition fixture_Unmarshal ::
  "string list \<Rightarrow> float64 NodeMetrics list \<Rightarrow> bytes \<Rightarrow> error + (unit, float64) sinfoResponse" where
  "fixture_Unmarshal errs nodes raw = Inr \<lparr>Meta = (), Errors = errs, Nodes = nodes\<rparr>"

definition two_node_fixture :: "float64 NodeMetrics list" where
  "two_node_fixture =
     [fixture_node (f64_of_nat 4) ''idle'' [''batch''],
      fixture_node (f64_of_nat 8) ''alloc'' [''batch'', ''gpu'']]"

text \<open>
  The natural number a binary64 value stands for, if it stands for one.  A node is
  count-valued in a field when the field holds such a value.  \<open>exact_counts\<close> says that
  every field of every node is count-valued and that, field by field, the counts summed
  over the nodes, each as often as the node names partitions, stay below \<open>2\<^sup>5\<^sup>3\<close>:
  then no addition made by \<open>fetchNodePartitionMetrics\<close> rounds.
\<close>

fun nat_of_f64 :: "float64 \<Rightarrow> nat option" where
  "nat_of_f64 (Finite s m e) =
     (if \<not> s \<and> 0 \<le> e \<and> (odd m \<or> (m = 0 \<and> e = 0)) then Some (m * 2 ^ nat e) else None)"
| "nat_of_f64 (Infinity s) = None"
| "nat_of_f64 NaN = None"

definition node_fields :: "('a NodeMetrics \<Rightarrow> 'a) list" where
  "node_fields =
     [NodeMetrics.Cpus, NodeMetrics.RealMemory, NodeMetrics.FreeMemory, NodeMetrics.AllocMemory,
      NodeMetrics.AllocCpus, NodeMetrics.CpuLoad, NodeMetrics.IdleCpus, NodeMetrics.Weight]"

definition exact_counts :: "float64 NodeMetrics list \<Rightarrow> bool" where
  "exact_counts nodes =
     (\<forall>field \<in> set node_fields.
        (\<forall>node \<in> set nodes. nat_of_f64 (field node) \<noteq> None) \<and>
        (\<Sum>node\<leftarrow>nodes. the (nat_of_f64 (field node)) * length (Partitions node)) < 2 ^ 53)"

text \<open>A node of partition batch that reports only a cpu load.\<close>

definition load_node :: "float64 \<Rightarrow> float64 NodeMetrics" where
  "load_node load = (fixture_node 0 ''idle'' [''batch''])\<lparr>NodeMetrics.CpuLoad := load\<rparr>"




text \<open>A metric has as many label values as its descriptor has labels (else
  \<^verbatim>\<open>MustNewConstMetric\<close> panics).\<close>

fun labels_match :: "'a Metric \<Rightarrow> bool" where
  "labels_match (MustNewConstMetric d vt v ls) = (length ls = length (variableLabels d))"
| "labels_match (Counter n) = True"

declare bit_len.simps [simp del]
declare normalise.simps [simp del]

section \<open>Evaluating binary64 arithmetic on numerals\<close>


lemma bit_len_0: "bit_len 0 = 0"
  by (simp add: bit_len.simps)

lemma bit_len_1: "bit_len 1 = 1"
  by (simp add: bit_len.simps)

lemma bit_len_Suc_0: "bit_len (Suc 0) = 1"
  by (simp add: bit_len.simps)

lemma bit_len_Bit0: "bit_len (numeral (Num.Bit0 k)) = Suc (bit_len (numeral k))"
  by (subst bit_len.simps) simp

lemma bit_len_Bit1: "bit_len (numeral (Num.Bit1 k)) = Suc (bit_len (numeral k))"
  by (subst bit_len.simps) simp

lemma normalise_0: "normalise 0 e = (0, 0)"
  by (simp add: normalise.simps)

lemma normalise_1: "normalise 1 e = (1, e)"
  by (simp add: normalise.simps)

lemma normalise_Suc_0: "normalise (Suc 0) e = (Suc 0, e)"
  by (simp add: normalise.simps)

lemma normalise_Bit0: "normalise (numeral (Num.Bit0 k)) e = normalise (numeral k) (e + 1)"
  by (subst normalise.simps) simp

lemma normalise_Bit1: "normalise (numeral (Num.Bit1 k)) e = (numeral (Num.Bit1 k), e)"
  by (subst normalise.simps) simp

lemmas f64_eval = f64_of_nat_def round_f64_def plus_float64_def zero_float64_def less_float64_def
  bit_len_0 bit_len_1 bit_len_Suc_0 bit_len_Bit0 bit_len_Bit1
  normalise_0 normalise_1 normalise_Suc_0 normalise_Bit0 normalise_Bit1 Let_def

section \<open>Binary64 addition of small natural numbers is exact\<close>

lemma bit_len_le: "n < 2 ^ k \<Longrightarrow> bit_len n \<le> k"
proof (induction k arbitrary: n)
  case 0
  then show ?case by (simp add: bit_len.simps)
next
  case (Suc k)
  show ?case
  proof (cases "n = 0")
    case True
    then show ?thesis by (simp add: bit_len.simps)
  next
    case False
    from Suc.prems have "n div 2 < 2 ^ k" by simp
    then have "bit_len (n div 2) \<le> k" by (rule Suc.IH)
    with False show ?thesis by (subst bit_len.simps) simp
  qed
qed

lemma round_f64_exact:
  assumes "m < 2 ^ 53" and "int (bit_len m) + e \<le> 1024"
  shows "round_f64 s m e = (case normalise m e of (m', e') \<Rightarrow> Finite s m' e')"
proof -
  from assms(1) have "bit_len m \<le> 53" by (rule bit_len_le)
  with assms(2) show ?thesis by (simp add: round_f64_def)
qed

lemma normalise_double: "0 < m \<Longrightarrow> normalise (2 * m) e = normalise m (e + 1)"
  by (subst normalise.simps) simp

lemma normalise_shift: "normalise (m * 2 ^ k) e = normalise m (e + int k)"
proof (cases "m = 0")
  case True
  then show ?thesis by (simp add: normalise.simps)
next
  case False
  then show ?thesis
  proof (induction k arbitrary: e)
    case 0
    then show ?case by simp
  next
    case (Suc k)
    have "normalise (m * 2 ^ Suc k) e = normalise (2 * (m * 2 ^ k)) e"
      by (simp add: mult.commute mult.left_commute)
    also have "\<dots> = normalise (m * 2 ^ k) (e + 1)"
      using Suc.prems by (intro normalise_double) simp
    also have "\<dots> = normalise m (e + 1 + int k)"
      using Suc.prems by (rule Suc.IH)
    finally show ?case by (simp add: add.commute add.left_commute)
  qed
qed

lemma normalise_odd: "odd m \<Longrightarrow> normalise m e = (m, e)"
  by (subst normalise.simps) auto

lemma normalise_value:
  "normalise n e = (m, e') \<Longrightarrow> n \<noteq> 0 \<Longrightarrow> e \<le> e' \<and> n = m * 2 ^ nat (e' - e)"
proof (induction n e rule: normalise.induct)
  case (1 n e)
  show ?case
  proof (cases "even n")
    case True
    with "1.prems" have eq: "normalise (n div 2) (e + 1) = (m, e')"
      by (subst (asm) normalise.simps) simp
    from True "1.prems"(2) have nz: "n div 2 \<noteq> 0" by auto
    from "1.IH" [OF "1.prems"(2) True eq nz]
    have ih: "e + 1 \<le> e'" "n div 2 = m * 2 ^ nat (e' - (e + 1))" by simp_all
    from ih(1) have "nat (e' - e) = Suc (nat (e' - (e + 1)))" by simp
    moreover from True have "n = 2 * (n div 2)" by simp
    ultimately show ?thesis using ih by simp
  next
    case False
    with "1.prems" show ?thesis by (simp add: normalise_odd)
  qed
qed

lemma normalise_zero: "normalise 0 e = (0, 0)"
  by (subst normalise.simps) simp

lemma normalise_canonical:
  "normalise n e = (m, e') \<Longrightarrow> odd m \<or> (m = 0 \<and> e' = 0)"
proof (induction n e rule: normalise.induct)
  case (1 n e)
  show ?case
  proof (cases "n = 0")
    case True
    with "1.prems" show ?thesis by (simp add: normalise_zero)
  next
    case nz: False
    show ?thesis
    proof (cases "even n")
      case True
      with nz "1.prems" have "normalise (n div 2) (e + 1) = (m, e')"
        by (subst (asm) normalise.simps) simp
      with "1.IH" [OF nz True] show ?thesis by simp
    next
      case False
      with "1.prems" show ?thesis by (simp add: normalise_odd)
    qed
  qed
qed

lemma f64_of_nat_exact:
  assumes "n < 2 ^ 53"
  shows "f64_of_nat n = (case normalise n 0 of (m, e) \<Rightarrow> Finite False m e)"
proof -
  from assms have "bit_len n \<le> 53" by (rule bit_len_le)
  then have "int (bit_len n) + 0 \<le> 1024" by simp
  with assms show ?thesis unfolding f64_of_nat_def by (rule round_f64_exact)
qed

lemma nat_of_f64_of_nat:
  assumes "k < 2 ^ 53"
  shows "nat_of_f64 (f64_of_nat k) = Some k"
proof -
  obtain m e where n: "normalise k 0 = (m, e)" by (metis surj_pair)
  have canon: "odd m \<or> (m = 0 \<and> e = 0)" using n by (rule normalise_canonical)
  have val: "0 \<le> e \<and> k = m * 2 ^ nat e"
  proof (cases "k = 0")
    case True
    with n show ?thesis by (simp add: normalise_zero)
  next
    case False
    with normalise_value [OF n] show ?thesis by simp
  qed
  from assms n have "f64_of_nat k = Finite False m e" by (simp add: f64_of_nat_exact)
  with canon val show ?thesis by auto
qed

lemma f64_of_nat_of_f64:
  assumes "nat_of_f64 x = Some k" and "k < 2 ^ 53"
  shows "x = f64_of_nat k"
proof (cases x)
  case (Finite s m e)
  with assms(1) have c: "\<not> s" "0 \<le> e" "odd m \<or> (m = 0 \<and> e = 0)" and k: "k = m * 2 ^ nat e"
    by (auto split: if_splits)
  have "normalise k 0 = normalise m (0 + int (nat e))"
    unfolding k by (rule normalise_shift)
  also have "\<dots> = normalise m e" using c(2) by simp
  also have "\<dots> = (m, e)"
    using c(3) by (auto simp: normalise_odd normalise_zero)
  finally have "normalise k 0 = (m, e)" .
  with assms(2) have "f64_of_nat k = Finite False m e" by (simp add: f64_of_nat_exact)
  with Finite c(1) show ?thesis by simp
next
  case (Infinity s)
  with assms(1) show ?thesis by simp
next
  case NaN
  with assms(1) show ?thesis by simp
qed

lemma exponent_small:
  assumes "m * 2 ^ nat e < (2::nat) ^ 53" and "0 \<le> e" and "odd m \<or> (m = 0 \<and> e = 0)"
  shows "e \<le> 53"
proof (cases "m = 0")
  case True
  with assms(3) show ?thesis by auto
next
  case False
  then have "(2::nat) ^ nat e \<le> m * 2 ^ nat e" by simp
  then have "(2::nat) ^ nat e < 2 ^ 53" using assms(1) by (rule le_less_trans)
  then have "nat e < 53" by (rule power_less_imp_less_exp [rotated]) simp
  then show ?thesis by simp
qed

lemma fadd_exact:
  assumes x: "nat_of_f64 x = Some a" and y: "nat_of_f64 y = Some b" and small: "a + b < 2 ^ 53"
  shows "fadd x y = f64_of_nat (a + b)"
proof -
  from x obtain m e where X: "x = Finite False m e" and ex: "0 \<le> e"
    and cx: "odd m \<or> (m = 0 \<and> e = 0)" and a: "a = m * 2 ^ nat e"
    by (cases x) (auto split: if_splits)
  from y obtain n f where Y: "y = Finite False n f" and ey: "0 \<le> f"
    and cy: "odd n \<or> (n = 0 \<and> f = 0)" and b: "b = n * 2 ^ nat f"
    by (cases y) (auto split: if_splits)
  define g where "g = min e f"
  define A where "A = m * 2 ^ nat (e - g)"
  define B where "B = n * 2 ^ nat (f - g)"
  have g0: "0 \<le> g" and ge: "g \<le> e" and gf: "g \<le> f"
    using ex ey by (simp_all add: g_def)
  have "nat e = nat (e - g) + nat g" using g0 ge by simp
  then have a': "a = A * 2 ^ nat g" by (simp add: a A_def power_add)
  have "nat f = nat (f - g) + nat g" using g0 gf by simp
  then have b': "b = B * 2 ^ nat g" by (simp add: b B_def power_add)
  have sum: "a + b = (A + B) * 2 ^ nat g"
    by (simp add: a' b' distrib_right)
  have "A + B \<le> (A + B) * 2 ^ nat g" by simp
  also have "\<dots> = a + b" by (simp only: sum)
  also note small
  finally have AB: "A + B < 2 ^ 53" .
  then have bl: "bit_len (A + B) \<le> 53" by (rule bit_len_le)
  from small a have "m * 2 ^ nat e < (2::nat) ^ 53" by simp
  then have "e \<le> 53" using ex cx by (rule exponent_small)
  with ge have "g \<le> 53" by simp
  with bl have "int (bit_len (A + B)) + g \<le> 1024" by simp
  with AB have "round_f64 False (A + B) g = (case normalise (A + B) g of (m', e') \<Rightarrow> Finite False m' e')"
    by (rule round_f64_exact)
  moreover have "normalise (a + b) 0 = normalise (A + B) g"
    using normalise_shift [of "A + B" "nat g" 0] g0 by (simp add: sum)
  moreover from small have "f64_of_nat (a + b) = (case normalise (a + b) 0 of (m', e') \<Rightarrow> Finite False m' e')"
    by (rule f64_of_nat_exact)
  moreover have "fadd x y = round_f64 False (A + B) g"
    by (simp add: X Y g_def A_def B_def Let_def)
  ultimately show ?thesis by simp
qed

lemma zero_is_f64_of_nat: "(0::float64) = f64_of_nat 0"
  by (simp add: zero_float64_def f64_of_nat_def round_f64_def bit_len.simps normalise_zero)

lemma foldl_exact:
  assumes "\<forall>c \<in> set cs. nat_of_f64 (field c) \<noteq> None"
    and "acc + (\<Sum>c\<leftarrow>cs. the (nat_of_f64 (field c))) < 2 ^ 53"
  shows "foldl (+) (f64_of_nat acc) (map field cs) =
         f64_of_nat (acc + (\<Sum>c\<leftarrow>cs. the (nat_of_f64 (field c))))"
  using assms
proof (induction cs arbitrary: acc)
  case Nil
  show ?case by simp
next
  case (Cons c cs)
  from Cons.prems(1) obtain k where k: "nat_of_f64 (field c) = Some k" by auto
  from Cons.prems(2) k have small: "acc + k < 2 ^ 53" by simp
  then have "acc < 2 ^ 53" by simp
  then have "nat_of_f64 (f64_of_nat acc) = Some acc" by (rule nat_of_f64_of_nat)
  from fadd_exact [OF this k small] have step: "f64_of_nat acc + field c = f64_of_nat (acc + k)"
    by (simp add: plus_float64_def)
  from Cons.prems have "foldl (+) (f64_of_nat (acc + k)) (map field cs) =
      f64_of_nat (acc + k + (\<Sum>c\<leftarrow>cs. the (nat_of_f64 (field c))))"
    by (intro Cons.IH) (simp_all add: k add.assoc)
  with step k show ?case by (simp add: add.assoc)
qed

section \<open>Properties of the aggregation loops\<close>


lemma index_or_update:
  "index_or z (AList.update k v m) p = (if p = k then v else index_or z m p)"
  by (simp add: index_or_def update_conv')

lemma keys_add_to_partition:
  "fst ` set (add_to_partition node acc q) = insert q (fst ` set acc)"
  by (simp add: add_to_partition_def dom_update)

lemma distinct_add_to_partition:
  "distinct (map fst acc) \<Longrightarrow> distinct (map fst (add_to_partition node acc q))"
  by (simp add: add_to_partition_def distinct_update)

lemma index_add_to_partition:
  "index_or new_PartitionMetrics (add_to_partition node acc q) p =
     (if p = q then accumulate node (index_or new_PartitionMetrics acc q)
      else index_or new_PartitionMetrics acc p)"
  by (simp add: add_to_partition_def index_or_update)

lemma inner_keys:
  "fst ` set (foldl (add_to_partition node) acc ps) = fst ` set acc \<union> set ps"
  by (induction ps arbitrary: acc) (auto simp: keys_add_to_partition)

lemma inner_distinct:
  "distinct (map fst acc) \<Longrightarrow> distinct (map fst (foldl (add_to_partition node) acc ps))"
  by (induction ps arbitrary: acc) (auto simp: distinct_add_to_partition)

lemma inner_index:
  "index_or new_PartitionMetrics (foldl (add_to_partition node) acc ps) p =
     accumulate_all (index_or new_PartitionMetrics acc p) (map (\<lambda>q. node) (filter (\<lambda>q. q = p) ps))"
  by (induction ps arbitrary: acc) (auto simp: index_add_to_partition accumulate_all_def)

lemma outer_keys:
  "fst ` set (partition_loop acc nodes) = fst ` set acc \<union> (\<Union>n\<in>set nodes. set (Partitions n))"
  unfolding partition_loop_def
  by (induction nodes arbitrary: acc) (auto simp: inner_keys)

lemma outer_distinct:
  "distinct (map fst acc) \<Longrightarrow> distinct (map fst (partition_loop acc nodes))"
  unfolding partition_loop_def
  by (induction nodes arbitrary: acc) (auto simp: inner_distinct)

lemma accumulate_all_append:
  "accumulate_all pm (xs @ ys) = accumulate_all (accumulate_all pm xs) ys"
  by (simp add: accumulate_all_def)

lemma outer_index:
  "index_or new_PartitionMetrics (partition_loop acc nodes) p =
     accumulate_all (index_or new_PartitionMetrics acc p) (contributions p nodes)"
  unfolding partition_loop_def
proof (induction nodes arbitrary: acc)
  case Nil
  show ?case by (simp add: contributions_def accumulate_all_def)
next
  case (Cons n ns)
  show ?case
    by (simp add: Cons.IH inner_index contributions_def accumulate_all_append)
qed

lemma accumulate_all_fields:
  "accumulate_all pm ns =
     \<lparr>Cpus = foldl (+) (PartitionMetrics.Cpus pm) (map NodeMetrics.Cpus ns),
      RealMemory = foldl (+) (PartitionMetrics.RealMemory pm) (map NodeMetrics.RealMemory ns),
      FreeMemory = foldl (+) (PartitionMetrics.FreeMemory pm) (map NodeMetrics.FreeMemory ns),
      AllocMemory = foldl (+) (PartitionMetrics.AllocMemory pm) (map NodeMetrics.AllocMemory ns),
      AllocCpus = foldl (+) (PartitionMetrics.AllocCpus pm) (map NodeMetrics.AllocCpus ns),
      CpuLoad = foldl (+) (PartitionMetrics.CpuLoad pm) (map NodeMetrics.CpuLoad ns),
      IdleCpus = foldl (+) (PartitionMetrics.IdleCpus pm) (map NodeMetrics.IdleCpus ns),
      Weight = foldl (+) (PartitionMetrics.Weight pm) (map NodeMetrics.Weight ns)\<rparr>"
  unfolding accumulate_all_def
  by (induction ns arbitrary: pm) (simp_all add: accumulate_def)

lemma accumulate_all_new:
  "accumulate_all new_PartitionMetrics ns = sum_fields ns"
  by (simp add: accumulate_all_fields sum_fields_def direct_sum_def new_PartitionMetrics_def)

lemma map_of_index_or:
  "map_of m p = (if p \<in> fst ` set m then Some (index_or z m p) else None)"
  by (auto simp: index_or_def map_of_eq_None_iff split: option.splits)

lemma fetchNodePartitionMetrics_keys:
  "fst ` set (fetchNodePartitionMetrics nodes) = (\<Union>n\<in>set nodes. set (Partitions n))"
  using outer_keys [of "[]" nodes] by (simp add: fetchNodePartitionMetrics_def partition_loop_def)

lemma fetchNodePartitionMetrics_distinct:
  "distinct (map fst (fetchNodePartitionMetrics nodes))"
  using outer_distinct [of "[]" nodes] by (simp add: fetchNodePartitionMetrics_def partition_loop_def)

lemma fetchNodePartitionMetrics_index:
  "index_or new_PartitionMetrics (fetchNodePartitionMetrics nodes) p = sum_fields (contributions p nodes)"
  using outer_index [of "[]" nodes p]
  by (simp add: fetchNodePartitionMetrics_def partition_loop_def accumulate_all_new index_or_def)

lemma fetchNodePartitionMetrics_map_of:
  "map_of (fetchNodePartitionMetrics nodes) p =
     (if p \<in> (\<Union>n\<in>set nodes. set (Partitions n)) then Some (sum_fields (contributions p nodes)) else None)"
  using map_of_index_or [of "fetchNodePartitionMetrics nodes" p new_PartitionMetrics]
  by (simp only: fetchNodePartitionMetrics_keys fetchNodePartitionMetrics_index)


lemma cpu_Total:
  "Total (foldl cpu_step s nodes) = foldl (+) (Total s) (map NodeMetrics.Cpus nodes)"
  by (induction nodes arbitrary: s) (simp_all add: cpu_step_def)

lemma cpu_Idle:
  "Idle (foldl cpu_step s nodes) = foldl (+) (Idle s) (map NodeMetrics.IdleCpus nodes)"
  by (induction nodes arbitrary: s) (simp_all add: cpu_step_def)

lemma cpu_Load:
  "Load (foldl cpu_step s nodes) = foldl (+) (Load s) (map NodeMetrics.CpuLoad nodes)"
  by (induction nodes arbitrary: s) (simp_all add: cpu_step_def)

lemma cpu_PerState_keys:
  "fst ` set (PerState (foldl cpu_step s nodes)) = fst ` set (PerState s) \<union> State ` set nodes"
  by (induction nodes arbitrary: s) (auto simp: cpu_step_def dom_update)

lemma cpu_PerState_distinct:
  "distinct (map fst (PerState s)) \<Longrightarrow> distinct (map fst (PerState (foldl cpu_step s nodes)))"
  by (induction nodes arbitrary: s) (simp_all add: cpu_step_def distinct_update)

lemma cpu_PerState_index:
  "index_or 0 (PerState (foldl cpu_step s nodes)) st =
     foldl (+) (index_or 0 (PerState s) st)
       (map NodeMetrics.Cpus (filter (\<lambda>node. State node = st) nodes))"
  by (induction nodes arbitrary: s) (auto simp: cpu_step_def index_or_update)

lemma fetchNodeTotalCpuMetrics_PerState:
  "map_of (PerState (fetchNodeTotalCpuMetrics nodes)) st =
     (if st \<in> State ` set nodes
      then Some (direct_sum NodeMetrics.Cpus (filter (\<lambda>node. State node = st) nodes))
      else None)"
proof -
  have keys: "fst ` set (PerState (fetchNodeTotalCpuMetrics nodes)) = State ` set nodes"
    by (simp add: fetchNodeTotalCpuMetrics_def cpu_PerState_keys)
  have "index_or 0 (PerState \<lparr>Total = 0, Idle = 0, Load = 0, PerState = []\<rparr>) st = (0::'a)"
    by (simp add: index_or_def)
  then have val: "index_or 0 (PerState (fetchNodeTotalCpuMetrics nodes)) st =
      direct_sum NodeMetrics.Cpus (filter (\<lambda>node. State node = st) nodes)"
    by (simp add: fetchNodeTotalCpuMetrics_def cpu_PerState_index direct_sum_def)
  show ?thesis
    using map_of_index_or [of "PerState (fetchNodeTotalCpuMetrics nodes)" st 0]
    by (simp only: keys val)
qed

lemma fetchNodeTotalCpuMetrics_distinct:
  "distinct (map fst (PerState (fetchNodeTotalCpuMetrics nodes)))"
  by (simp add: fetchNodeTotalCpuMetrics_def cpu_PerState_distinct)

lemma mem_AllocMemory:
  "MemSummaryMetrics.AllocMemory (foldl mem_step s nodes) =
     foldl (+) (MemSummaryMetrics.AllocMemory s) (map NodeMetrics.AllocMemory nodes)"
  by (induction nodes arbitrary: s) (simp_all add: mem_step_def)

lemma mem_FreeMemory:
  "MemSummaryMetrics.FreeMemory (foldl mem_step s nodes) =
     foldl (+) (MemSummaryMetrics.FreeMemory s) (map NodeMetrics.FreeMemory nodes)"
  by (induction nodes arbitrary: s) (simp_all add: mem_step_def)

lemma mem_RealMemory:
  "MemSummaryMetrics.RealMemory (foldl mem_step s nodes) =
     foldl (+) (MemSummaryMetrics.RealMemory s) (map NodeMetrics.RealMemory nodes)"
  by (induction nodes arbitrary: s) (simp_all add: mem_step_def)

lemma count_list_const_map:
  "count_list (map (\<lambda>q. n) xs) node = (if n = node then length xs else 0)"
  by (induction xs) auto

lemma length_filter_eq_count_list:
  "length (filter (\<lambda>q. q = p) ps) = count_list ps p"
  by (induction ps) auto

lemma contributions_Cons:
  "contributions p (n # ns) = map (\<lambda>q. n) (filter (\<lambda>q. q = p) (Partitions n)) @ contributions p ns"
  by (simp add: contributions_def)

lemma count_contributions:
  "count_list (contributions p nodes) node = count_list nodes node * count_list (Partitions node) p"
proof (induction nodes)
  case Nil
  show ?case by (simp add: contributions_def)
next
  case (Cons n ns)
  show ?case
    by (simp add: contributions_Cons Cons.IH count_list_const_map length_filter_eq_count_list)
qed

section \<open>Properties of the collector\<close>

lemma parseNodeMetrics_ok:
  "json_Unmarshal sinfo = Inr squeue \<Longrightarrow> Errors squeue = [] \<Longrightarrow>
   parseNodeMetrics json_Unmarshal sinfo = ((Nodes squeue, None), [])"
  by (simp add: parseNodeMetrics_def)

lemma sent_Collect_ok:
  assumes "fetcher nc w = ((sinfo, None), w')"
    and "json_Unmarshal sinfo = Inr squeue"
    and "Errors squeue = []"
  shows "sent (Collect json_Unmarshal porder sorder nc w) =
     concat (map emit_partition (porder (fetchNodePartitionMetrics (Nodes squeue)))) @
     [MustNewConstMetric totalCpus GaugeValue (Total (fetchNodeTotalCpuMetrics (Nodes squeue))) [],
      MustNewConstMetric totalIdleCpus GaugeValue (Idle (fetchNodeTotalCpuMetrics (Nodes squeue))) [],
      MustNewConstMetric totalCpuLoad GaugeValue (Load (fetchNodeTotalCpuMetrics (Nodes squeue))) []] @
     map (\<lambda>(state, cpus). MustNewConstMetric cpusPerState GaugeValue cpus [state])
       (sorder (PerState (fetchNodeTotalCpuMetrics (Nodes squeue)))) @
     [MustNewConstMetric totalRealMemory GaugeValue
        (MemSummaryMetrics.RealMemory (fetchNodeTotalMemMetrics (Nodes squeue))) [],
      MustNewConstMetric totalFreeMemory GaugeValue
        (MemSummaryMetrics.FreeMemory (fetchNodeTotalMemMetrics (Nodes squeue))) [],
      MustNewConstMetric totalAllocMemory GaugeValue
        (MemSummaryMetrics.AllocMemory (fetchNodeTotalMemMetrics (Nodes squeue))) [],
      Counter (nodeScrapeErrors nc)]"
proof -
  have "parseNodeMetrics json_Unmarshal sinfo = ((Nodes squeue, None), [])"
    using assms(2,3) by (rule parseNodeMetrics_ok)
  then show ?thesis
    by (simp add: sent_def Collect_def Collect_body_def assms(1) Let_def)
qed

lemma mem_guarded: "(y \<in> set (if c then [x] else [])) = (c \<and> y = x)"
  by (cases c) simp_all

lemma emit_partition_mem:
  assumes "(d, field) \<in> set partition_fields"
  shows "(MustNewConstMetric d vt v ls \<in> set (emit_partition (p', m'))) =
         (vt = GaugeValue \<and> ls = [p'] \<and> v = field m' \<and> 0 < field m')"
proof -
  from assms consider
      "d = partitionCpus" "field = PartitionMetrics.Cpus"
    | "d = partitionRealMemory" "field = PartitionMetrics.RealMemory"
    | "d = partitionFreeMemory" "field = PartitionMetrics.FreeMemory"
    | "d = partitionAllocMemory" "field = PartitionMetrics.AllocMemory"
    | "d = partitionAllocCpus" "field = PartitionMetrics.AllocCpus"
    | "d = partitionIdleCpus" "field = PartitionMetrics.IdleCpus"
    | "d = partitionWeight" "field = PartitionMetrics.Weight"
    | "d = partitionCpuLoad" "field = PartitionMetrics.CpuLoad"
    by (auto simp: partition_fields_def)
  then show ?thesis
    by cases (auto simp: emit_partition_def)
qed

lemma partition_desc_not_other:
  assumes "(d, field) \<in> set partition_fields"
  shows "d \<noteq> totalCpus \<and> d \<noteq> totalIdleCpus \<and> d \<noteq> totalCpuLoad \<and> d \<noteq> cpusPerState \<and>
         d \<noteq> totalRealMemory \<and> d \<noteq> totalFreeMemory \<and> d \<noteq> totalAllocMemory"
  using assms by (auto simp: partition_fields_def)

lemma range_order_set: "range_order visit \<Longrightarrow> set (visit m) = set m"
  unfolding range_order_def by (metis set_mset_mset)

lemma Collect_failed_fetch:
  "fetcher nc w = ((sinfo, Some e), w') \<Longrightarrow>
   Collect json_Unmarshal porder sorder nc w =
     (([Counter (nodeScrapeErrors nc + 1)], [slog_Error (''Failed to fetch from cli: '' @ Error e) []]),
      nc\<lparr>nodeScrapeErrors := nodeScrapeErrors nc + 1\<rparr>, w')"
  by (simp add: Collect_def Collect_body_def)

lemma Collect_failed_parse:
  "fetcher nc w = ((sinfo, None), w') \<Longrightarrow>
   parseNodeMetrics json_Unmarshal sinfo = ((nodeMetrics, Some e), parse_log) \<Longrightarrow>
   Collect json_Unmarshal porder sorder nc w =
     (([Counter (nodeScrapeErrors nc + 1)],
       parse_log @ [slog_Error (''Failed to parse node metrics: '' @ Error e) []]),
      nc\<lparr>nodeScrapeErrors := nodeScrapeErrors nc + 1\<rparr>, w')"
  by (simp add: Collect_def Collect_body_def)

lemma Collect_succeeded:
  "fetcher nc w = ((sinfo, None), w') \<Longrightarrow>
   parseNodeMetrics json_Unmarshal sinfo = ((nodeMetrics, None), parse_log) \<Longrightarrow>
   \<exists>ch. Collect json_Unmarshal porder sorder nc w =
     ((ch @ [Counter (nodeScrapeErrors nc)], parse_log), nc, w')"
  by (simp add: Collect_def Collect_body_def Let_def)

text \<open>Unfolding the model on a concrete input.\<close>

lemmas model_eval = fetchNodePartitionMetrics_def fetchNodeTotalCpuMetrics_def fetchNodeTotalMemMetrics_def
  add_to_partition_def accumulate_def new_PartitionMetrics_def cpu_step_def mem_step_def
  index_or_def fixture_node_def direct_sum_def contributions_def sum_fields_def

lemma two_node_partitions:
  "fetchNodePartitionMetrics two_node_fixture =
     [(''batch'', \<lparr>Cpus = f64_of_nat 12, RealMemory = 0, FreeMemory = 0, AllocMemory = 0,
                    AllocCpus = 0, CpuLoad = 0, IdleCpus = 0, Weight = 0\<rparr>),
      (''gpu'', \<lparr>Cpus = f64_of_nat 8, RealMemory = 0, FreeMemory = 0, AllocMemory = 0,
                  AllocCpus = 0, CpuLoad = 0, IdleCpus = 0, Weight = 0\<rparr>)]"
  by (simp add: two_node_fixture_def model_eval f64_eval del: One_nat_def)

lemma range_order_rev: "range_order rev"
  by (simp add: range_order_def)

section \<open>Reordering the input\<close>

lemma mset_contributions:
  assumes "mset nodes' = mset nodes"
  shows "mset (contributions p nodes') = mset (contributions p nodes)"
proof -
  have "mset (contributions p ns) =
      sum_mset (image_mset (\<lambda>node. mset (map (\<lambda>q. node) (filter (\<lambda>q. q = p) (Partitions node)))) (mset ns))"
    for ns :: "'a NodeMetrics list"
    by (simp add: contributions_def mset_concat sum_mset_sum_list [symmetric] comp_def
        del: mset_map mset_filter) (simp only: mset_map)
  then show ?thesis by (simp only: assms)
qed

lemma set_contributions: "set (contributions p nodes) \<subseteq> set nodes"
  by (auto simp: contributions_def)

lemma sum_contributions_le:
  "(\<Sum>c\<leftarrow>contributions p nodes. k c) \<le> (\<Sum>node\<leftarrow>nodes. (k node :: nat) * length (Partitions node))"
proof (induction nodes)
  case Nil
  show ?case by (simp add: contributions_def)
next
  case (Cons n ns)
  have "(\<Sum>c\<leftarrow>map (\<lambda>q. n) (filter (\<lambda>q. q = p) (Partitions n)). k c) =
      k n * length (filter (\<lambda>q. q = p) (Partitions n))"
    by (simp add: sum_list_triv comp_def)
  also have "\<dots> \<le> k n * length (Partitions n)"
    by simp
  finally show ?case
    using Cons.IH by (simp add: contributions_Cons)
qed

lemma sum_list_perm:
  "mset xs = mset ys \<Longrightarrow> (\<Sum>c\<leftarrow>xs. (k c :: nat)) = (\<Sum>c\<leftarrow>ys. k c)"
  by (metis mset_map sum_mset_sum_list)

lemma direct_sum_perm:
  fixes field :: "float64 NodeMetrics \<Rightarrow> float64"
  assumes perm: "mset nodes' = mset nodes"
    and counts: "\<forall>node \<in> set nodes. nat_of_f64 (field node) \<noteq> None"
    and small: "(\<Sum>node\<leftarrow>nodes. the (nat_of_f64 (field node)) * length (Partitions node)) < 2 ^ 53"
  shows "direct_sum field (contributions p nodes') = direct_sum field (contributions p nodes)"
proof -
  let ?k = "\<lambda>c. the (nat_of_f64 (field c))"
  have m: "mset (contributions p nodes') = mset (contributions p nodes)"
    using perm by (rule mset_contributions)
  then have s: "set (contributions p nodes') = set (contributions p nodes)"
    by (rule mset_eq_setD)
  have sums: "(\<Sum>c\<leftarrow>contributions p nodes'. ?k c) = (\<Sum>c\<leftarrow>contributions p nodes. ?k c)"
    using m by (rule sum_list_perm)
  have "(\<Sum>c\<leftarrow>contributions p nodes. ?k c) \<le>
      (\<Sum>node\<leftarrow>nodes. ?k node * length (Partitions node))"
    by (rule sum_contributions_le)
  with small have b: "0 + (\<Sum>c\<leftarrow>contributions p nodes. ?k c) < 2 ^ 53"
    by simp
  have c: "\<forall>c \<in> set (contributions p nodes). nat_of_f64 (field c) \<noteq> None"
    using counts set_contributions [of p nodes] by blast
  have c': "\<forall>c \<in> set (contributions p nodes'). nat_of_f64 (field c) \<noteq> None"
    using c by (simp only: s)
  have b': "0 + (\<Sum>c\<leftarrow>contributions p nodes'. ?k c) < 2 ^ 53"
    using b by (simp only: sums)
  have "direct_sum field (contributions p nodes') = f64_of_nat (0 + (\<Sum>c\<leftarrow>contributions p nodes'. ?k c))"
    unfolding direct_sum_def zero_is_f64_of_nat using c' b' by (rule foldl_exact)
  moreover have "direct_sum field (contributions p nodes) = f64_of_nat (0 + (\<Sum>c\<leftarrow>contributions p nodes. ?k c))"
    unfolding direct_sum_def zero_is_f64_of_nat using c b by (rule foldl_exact)
  ultimately show ?thesis by (simp only: sums)
qed

lemma sum_fields_perm:
  assumes "mset nodes' = mset nodes" and "exact_counts nodes"
  shows "sum_fields (contributions p nodes') = sum_fields (contributions p nodes)"
proof -
  have "direct_sum field (contributions p nodes') = direct_sum field (contributions p nodes)"
    if "field \<in> set node_fields" for field
    using assms(1) that assms(2) unfolding exact_counts_def
    by (intro direct_sum_perm) blast+
  then show ?thesis
    by (simp add: sum_fields_def node_fields_def)
qed

lemma exact_counts_two_node_fixture: "exact_counts two_node_fixture"
  by (simp add: exact_counts_def node_fields_def two_node_fixture_def fixture_node_def
      f64_eval del: One_nat_def)

section \<open>Properties of the decoder\<close>











lemma emit_partition_labels: "list_all labels_match (emit_partition entry)"
  by (cases entry) (simp add: emit_partition_def)

lemma Collect_labels_match:
  "list_all labels_match (sent (Collect json_Unmarshal porder sorder nc w))"
proof -
  obtain sinfo err w' where f: "fetcher nc w = ((sinfo, err), w')"
    by (metis surj_pair)
  obtain nodeMetrics err' parse_log
    where p: "parseNodeMetrics json_Unmarshal sinfo = ((nodeMetrics, err'), parse_log)"
    by (metis surj_pair)
  show ?thesis
    using f p
    by (cases err; cases err')
      (auto simp: sent_def Collect_def Collect_body_def Let_def list_all_iff emit_partition_labels
        dest: list_all_iff [THEN iffD1, OF emit_partition_labels, THEN bspec])
qed

section \<open>Properties of the program\<close>

text \<open>
  C2.  A payload whose decoded \<^verbatim>\<open>errors\<close> list is not empty makes \<open>parseNodeMetrics\<close>
  fail: it returns no node records (the nil slice) and the error made by
  \<^verbatim>\<open>errors.New\<close> from the first entry of the list, whose message is that entry,
  whatever the payload's \<^verbatim>\<open>nodes\<close> list holds.
\<close>

theorem parseNodeMetrics_reported_errors:
  assumes "json_Unmarshal jsonNodeList = Inr squeue"
    and "Errors squeue = e0 # es"
  shows "fst (parseNodeMetrics json_Unmarshal jsonNodeList) = ([], Some (errors_New e0)) \<and>
         Error (errors_New e0) = e0"
  using assms by (simp add: parseNodeMetrics_def)

theorem parseNodeMetrics_reported_errors_witness:
  "fst (parseNodeMetrics
          (\<lambda>raw. Inr \<lparr>Meta = (), Errors = [''Unable to contact slurm controller'', ''second''],
                      Nodes = [fixture_node (f64_of_nat 4) ''idle'' [''batch'']]\<rparr>)
          ''payload'')
     = ([], Some (errors_New ''Unable to contact slurm controller''))"
  using parseNodeMetrics_reported_errors
    [of "\<lambda>raw. Inr \<lparr>Meta = (), Errors = [''Unable to contact slurm controller'', ''second''],
                      Nodes = [fixture_node (f64_of_nat 4) ''idle'' [''batch'']]\<rparr>"
        "''payload''" _ "''Unable to contact slurm controller''" "[''second'']"]
  by simp

text \<open>
  C3.  In a call of \<open>Collect\<close> whose fetch and parse succeed, for every partition \<open>p\<close>
  of the computed aggregates and each of the eight partition-scoped metrics: a sample of
  that metric labelled \<open>p\<close> is sent if and only if the accumulated value of its field is
  strictly greater than zero, and the sample then is a gauge carrying that value.  A
  field that is not greater than zero is suppressed.
\<close>

theorem partition_sample_iff_positive:
  assumes "range_order porder"
    and "fetcher nc w = ((sinfo, None), w')"
    and "json_Unmarshal sinfo = Inr squeue"
    and "Errors squeue = []"
    and "(p, metric) \<in> set (fetchNodePartitionMetrics (Nodes squeue))"
    and "(d, field) \<in> set partition_fields"
  shows "(MustNewConstMetric d vt v [p] \<in> set (sent (Collect json_Unmarshal porder sorder nc w))) =
         (vt = GaugeValue \<and> v = field metric \<and> 0 < field metric)"
proof -
  let ?pm = "fetchNodePartitionMetrics (Nodes squeue)"
  let ?x = "MustNewConstMetric d vt v [p]"
  have other: "d \<noteq> totalCpus \<and> d \<noteq> totalIdleCpus \<and> d \<noteq> totalCpuLoad \<and> d \<noteq> cpusPerState \<and>
         d \<noteq> totalRealMemory \<and> d \<noteq> totalFreeMemory \<and> d \<noteq> totalAllocMemory"
    using assms(6) by (rule partition_desc_not_other)
  have unique: "m' = metric" if "(p, m') \<in> set ?pm" for m'
    using that assms(5) fetchNodePartitionMetrics_distinct [of "Nodes squeue"]
    by (meson eq_key_imp_eq_value)
  have mem: "(?x \<in> set (emit_partition entry)) =
      (fst entry = p \<and> vt = GaugeValue \<and> v = field (snd entry) \<and> 0 < field (snd entry))" for entry
    using emit_partition_mem [OF assms(6), of vt v "[p]" "fst entry" "snd entry"] by auto
  have "(?x \<in> set (sent (Collect json_Unmarshal porder sorder nc w))) =
        (?x \<in> set (concat (map emit_partition (porder ?pm))))"
    using other
    by (auto simp: sent_Collect_ok [where json_Unmarshal = json_Unmarshal and porder = porder
          and sorder = sorder, OF assms(2,3,4)])
  also have "\<dots> = (\<exists>entry \<in> set ?pm. ?x \<in> set (emit_partition entry))"
    by (simp add: range_order_set [OF assms(1)])
  also have "\<dots> = (\<exists>m'. (p, m') \<in> set ?pm \<and> vt = GaugeValue \<and> v = field m' \<and> 0 < field m')"
  proof
    assume "\<exists>entry \<in> set ?pm. ?x \<in> set (emit_partition entry)"
    then obtain entry where e: "entry \<in> set ?pm" and x: "?x \<in> set (emit_partition entry)"
      by blast
    from x have "fst entry = p \<and> vt = GaugeValue \<and> v = field (snd entry) \<and> 0 < field (snd entry)"
      by (simp only: mem)
    moreover from e have "(fst entry, snd entry) \<in> set ?pm"
      by simp
    ultimately show "\<exists>m'. (p, m') \<in> set ?pm \<and> vt = GaugeValue \<and> v = field m' \<and> 0 < field m'"
      by blast
  next
    assume "\<exists>m'. (p, m') \<in> set ?pm \<and> vt = GaugeValue \<and> v = field m' \<and> 0 < field m'"
    then obtain m' where e: "(p, m') \<in> set ?pm" and v: "vt = GaugeValue \<and> v = field m' \<and> 0 < field m'"
      by blast
    have "(?x \<in> set (emit_partition (p, m'))) =
        (vt = GaugeValue \<and> [p] = [p] \<and> v = field m' \<and> 0 < field m')"
      by (rule emit_partition_mem [OF assms(6)])
    with v have "?x \<in> set (emit_partition (p, m'))"
      by blast
    with e show "\<exists>entry \<in> set ?pm. ?x \<in> set (emit_partition entry)"
      by blast
  qed
  also have "\<dots> = (vt = GaugeValue \<and> v = field metric \<and> 0 < field metric)"
  proof
    assume "\<exists>m'. (p, m') \<in> set ?pm \<and> vt = GaugeValue \<and> v = field m' \<and> 0 < field m'"
    then obtain m' where e: "(p, m') \<in> set ?pm" and v: "vt = GaugeValue \<and> v = field m' \<and> 0 < field m'"
      by blast
    from e have "m' = metric"
      by (rule unique)
    with v show "vt = GaugeValue \<and> v = field metric \<and> 0 < field metric"
      by simp
  next
    assume "vt = GaugeValue \<and> v = field metric \<and> 0 < field metric"
    with assms(5) show "\<exists>m'. (p, m') \<in> set ?pm \<and> vt = GaugeValue \<and> v = field m' \<and> 0 < field m'"
      by blast
  qed
  finally show ?thesis .
qed

theorem partition_sample_iff_positive_witness:
  "MustNewConstMetric partitionCpus GaugeValue (f64_of_nat 12) [''batch'']
     \<in> set (sent (Collect (fixture_Unmarshal [] two_node_fixture) rev rev
          \<lparr>cache = (), fetcher = counting_fetcher ''payload'', nodeScrapeErrors = 0\<rparr> 0)) \<and>
   MustNewConstMetric partitionRealMemory GaugeValue 0 [''batch'']
     \<notin> set (sent (Collect (fixture_Unmarshal [] two_node_fixture) rev rev
          \<lparr>cache = (), fetcher = counting_fetcher ''payload'', nodeScrapeErrors = 0\<rparr> 0))"
proof -
  let ?nc = "\<lparr>cache = (), fetcher = counting_fetcher ''payload'', nodeScrapeErrors = 0\<rparr>"
  let ?batch = "\<lparr>Cpus = f64_of_nat 12, RealMemory = 0, FreeMemory = 0, AllocMemory = 0,
                    AllocCpus = 0, CpuLoad = 0, IdleCpus = 0, Weight = (0::float64)\<rparr>"
  have f: "fetcher ?nc (0::nat) = ((''payload'', None), 1)"
    by (simp add: counting_fetcher_def)
  have u: "fixture_Unmarshal [] two_node_fixture ''payload'' =
      Inr \<lparr>Meta = (), Errors = [], Nodes = two_node_fixture\<rparr>"
    by (simp add: fixture_Unmarshal_def)
  have e: "Errors \<lparr>Meta = (), Errors = [], Nodes = two_node_fixture\<rparr> = []"
    by simp
  have m: "(''batch'', ?batch)
      \<in> set (fetchNodePartitionMetrics (Nodes \<lparr>Meta = (), Errors = [], Nodes = two_node_fixture\<rparr>))"
    by (simp add: two_node_partitions)
  have d1: "(partitionCpus, PartitionMetrics.Cpus) \<in> set partition_fields"
    by (simp add: partition_fields_def)
  have d2: "(partitionRealMemory, PartitionMetrics.RealMemory) \<in> set partition_fields"
    by (simp add: partition_fields_def)
  have pos: "(0::float64) < f64_of_nat 12" and zero: "\<not> (0::float64) < 0"
    by (simp_all add: f64_eval del: One_nat_def)
  show ?thesis
    using pos zero
      partition_sample_iff_positive [where json_Unmarshal = "fixture_Unmarshal [] two_node_fixture"
        and porder = rev and sorder = rev and vt = GaugeValue and v = "f64_of_nat 12",
        OF range_order_rev f u e m d1]
      partition_sample_iff_positive [where json_Unmarshal = "fixture_Unmarshal [] two_node_fixture"
        and porder = rev and sorder = rev and vt = GaugeValue and v = 0,
        OF range_order_rev f u e m d2]
    by simp
qed

text \<open>
  C4.  Every call of \<open>Collect\<close> sends the error counter, with the count it holds after
  the call, as the last metric on the channel.  When the fetch or the parse fails, the
  count has gone up by exactly one and the counter is the only metric sent; when neither
  fails the count is unchanged.
\<close>

theorem error_counter_sent_last:
  "sent (Collect json_Unmarshal porder sorder nc w) \<noteq> [] \<and>
   last (sent (Collect json_Unmarshal porder sorder nc w)) =
     Counter (nodeScrapeErrors (collector_after (Collect json_Unmarshal porder sorder nc w))) \<and>
   (fetch_failed nc w \<or> parse_failed json_Unmarshal nc w \<longrightarrow>
      nodeScrapeErrors (collector_after (Collect json_Unmarshal porder sorder nc w)) =
        nodeScrapeErrors nc + 1 \<and>
      sent (Collect json_Unmarshal porder sorder nc w) = [Counter (nodeScrapeErrors nc + 1)]) \<and>
   (\<not> fetch_failed nc w \<and> \<not> parse_failed json_Unmarshal nc w \<longrightarrow>
      nodeScrapeErrors (collector_after (Collect json_Unmarshal porder sorder nc w)) =
        nodeScrapeErrors nc)"
proof -
  obtain sinfo err w' where f: "fetcher nc w = ((sinfo, err), w')"
    by (metis surj_pair)
  show ?thesis
  proof (cases err)
    case (Some e)
    with f Collect_failed_fetch [of nc w sinfo e w' json_Unmarshal porder sorder] show ?thesis
      by (simp add: sent_def collector_after_def fetch_failed_def parse_failed_def)
  next
    case None
    obtain nodeMetrics err' parse_log
      where p: "parseNodeMetrics json_Unmarshal sinfo = ((nodeMetrics, err'), parse_log)"
      by (metis surj_pair)
    show ?thesis
    proof (cases err')
      case (Some e)
      with f None p
        Collect_failed_parse [of nc w sinfo w' json_Unmarshal nodeMetrics e parse_log porder sorder]
      show ?thesis
        by (simp add: sent_def collector_after_def fetch_failed_def parse_failed_def)
    next
      case n: None
      with f None p
        Collect_succeeded [of nc w sinfo w' json_Unmarshal nodeMetrics parse_log porder sorder]
      show ?thesis
        by (auto simp: sent_def collector_after_def fetch_failed_def parse_failed_def)
    qed
  qed
qed

theorem error_counter_sent_last_witness:
  "sent (Collect (fixture_Unmarshal [] two_node_fixture) id id
           \<lparr>cache = (), fetcher = failing_fetcher, nodeScrapeErrors = 3\<rparr> 0) = [Counter 4] \<and>
   sent (Collect (fixture_Unmarshal [''slurmctld down''] two_node_fixture) id id
           \<lparr>cache = (), fetcher = counting_fetcher ''payload'', nodeScrapeErrors = 3\<rparr> 0) = [Counter 4] \<and>
   last (sent (Collect (fixture_Unmarshal [] two_node_fixture) id id
           \<lparr>cache = (), fetcher = counting_fetcher ''payload'', nodeScrapeErrors = 3\<rparr> 0)) = Counter 3"
proof -
  have a: "fetch_failed \<lparr>cache = (), fetcher = failing_fetcher, nodeScrapeErrors = 3\<rparr> 0"
    by (simp add: fetch_failed_def failing_fetcher_def)
  have b: "parse_failed (fixture_Unmarshal [''slurmctld down''] two_node_fixture)
      \<lparr>cache = (), fetcher = counting_fetcher ''payload'', nodeScrapeErrors = 3\<rparr> 0"
    by (simp add: parse_failed_def counting_fetcher_def parseNodeMetrics_def fixture_Unmarshal_def)
  have c: "\<not> fetch_failed \<lparr>cache = (), fetcher = counting_fetcher ''payload'', nodeScrapeErrors = 3\<rparr> 0 \<and>
      \<not> parse_failed (fixture_Unmarshal [] two_node_fixture)
      \<lparr>cache = (), fetcher = counting_fetcher ''payload'', nodeScrapeErrors = 3\<rparr> 0"
    by (simp add: fetch_failed_def parse_failed_def counting_fetcher_def parseNodeMetrics_def fixture_Unmarshal_def)
  show ?thesis
    using a b c
      error_counter_sent_last [of "fixture_Unmarshal [] two_node_fixture" id id
        "\<lparr>cache = (), fetcher = failing_fetcher, nodeScrapeErrors = 3\<rparr>" 0]
      error_counter_sent_last [of "fixture_Unmarshal [''slurmctld down''] two_node_fixture" id id
        "\<lparr>cache = (), fetcher = counting_fetcher ''payload'', nodeScrapeErrors = 3\<rparr>" 0]
      error_counter_sent_last [of "fixture_Unmarshal [] two_node_fixture" id id
        "\<lparr>cache = (), fetcher = counting_fetcher ''payload'', nodeScrapeErrors = 3\<rparr>" 0]
    by simp
qed

text \<open>
  C5.  The aggregate of a partition \<open>p\<close> that some node lists is made of the direct sums
  of the eight fields over the contributions to \<open>p\<close>, and a node stands among these
  contributions once for every time its partition list names \<open>p\<close>: each node adds its
  full field values to every partition it lists, nothing being split between them.  For
  the fixture node1 (cpus 4, state idle, partitions batch) and node2 (cpus 8, state alloc,
  partitions batch and gpu), in binary64: the cluster total of cpus is 12, the per-state
  mapping is idle 4 and alloc 8, partition batch has 12 cpus and partition gpu has 8.
\<close>

theorem full_contribution:
  "(p \<in> (\<Union>node\<in>set nodes. set (Partitions node)) \<longrightarrow>
      map_of (fetchNodePartitionMetrics nodes) p = Some (sum_fields (contributions p nodes))) \<and>
   count_list (contributions p nodes) node = count_list nodes node * count_list (Partitions node) p \<and>
   Total (fetchNodeTotalCpuMetrics
      [fixture_node (f64_of_nat 4) ''idle'' [''batch''],
       fixture_node (f64_of_nat 8) ''alloc'' [''batch'', ''gpu'']]) = f64_of_nat 12 \<and>
   PerState (fetchNodeTotalCpuMetrics
      [fixture_node (f64_of_nat 4) ''idle'' [''batch''],
       fixture_node (f64_of_nat 8) ''alloc'' [''batch'', ''gpu'']]) =
     [(''idle'', f64_of_nat 4), (''alloc'', f64_of_nat 8)] \<and>
   map (\<lambda>(part, metric). (part, PartitionMetrics.Cpus metric))
     (fetchNodePartitionMetrics
        [fixture_node (f64_of_nat 4) ''idle'' [''batch''],
         fixture_node (f64_of_nat 8) ''alloc'' [''batch'', ''gpu'']]) =
     [(''batch'', f64_of_nat 12), (''gpu'', f64_of_nat 8)]"
proof -
  have general: "p \<in> (\<Union>node\<in>set nodes. set (Partitions node)) \<longrightarrow>
      map_of (fetchNodePartitionMetrics nodes) p = Some (sum_fields (contributions p nodes))"
    by (simp add: fetchNodePartitionMetrics_map_of)
  have fixture:
    "Total (fetchNodeTotalCpuMetrics
      [fixture_node (f64_of_nat 4) ''idle'' [''batch''],
       fixture_node (f64_of_nat 8) ''alloc'' [''batch'', ''gpu'']]) = f64_of_nat 12 \<and>
     PerState (fetchNodeTotalCpuMetrics
      [fixture_node (f64_of_nat 4) ''idle'' [''batch''],
       fixture_node (f64_of_nat 8) ''alloc'' [''batch'', ''gpu'']]) =
       [(''idle'', f64_of_nat 4), (''alloc'', f64_of_nat 8)] \<and>
     map (\<lambda>(part, metric). (part, PartitionMetrics.Cpus metric))
       (fetchNodePartitionMetrics
          [fixture_node (f64_of_nat 4) ''idle'' [''batch''],
           fixture_node (f64_of_nat 8) ''alloc'' [''batch'', ''gpu'']]) =
       [(''batch'', f64_of_nat 12), (''gpu'', f64_of_nat 8)]"
    by (simp add: model_eval f64_eval del: One_nat_def)
  from general count_contributions [of p nodes node] fixture show ?thesis
    by (simp only: simp_thms)
qed

theorem full_contribution_witness:
  "map_of (fetchNodePartitionMetrics
      [fixture_node (f64_of_nat 4) ''idle'' [''batch''],
       fixture_node (f64_of_nat 8) ''alloc'' [''batch'', ''gpu'', ''batch'']]) ''batch'' =
   Some \<lparr>Cpus = f64_of_nat 20, RealMemory = 0, FreeMemory = 0, AllocMemory = 0,
         AllocCpus = 0, CpuLoad = 0, IdleCpus = 0, Weight = 0\<rparr> \<and>
   contributions ''batch''
      [fixture_node (f64_of_nat 4) ''idle'' [''batch''],
       fixture_node (f64_of_nat 8) ''alloc'' [''batch'', ''gpu'', ''batch'']] =
      [fixture_node (f64_of_nat 4) ''idle'' [''batch''],
       fixture_node (f64_of_nat 8) ''alloc'' [''batch'', ''gpu'', ''batch''],
       fixture_node (f64_of_nat 8) ''alloc'' [''batch'', ''gpu'', ''batch'']]"
  using full_contribution [of "''batch''"
      "[fixture_node (f64_of_nat 4) ''idle'' [''batch''],
        fixture_node (f64_of_nat 8) ''alloc'' [''batch'', ''gpu'', ''batch'']]"]
  by (simp add: model_eval f64_eval del: One_nat_def)

text \<open>
  C6.  Every field of the CPU summary (total, idle, load) and of the memory summary
  (alloc, free, real) is the direct sum of the corresponding node field over the input,
  taken from zero in input order; for the empty sequence both summaries are all zero and
  the per-state mapping is empty.
\<close>

theorem summaries_are_direct_sums:
  "Total (fetchNodeTotalCpuMetrics nodes) = direct_sum NodeMetrics.Cpus nodes \<and>
   Idle (fetchNodeTotalCpuMetrics nodes) = direct_sum NodeMetrics.IdleCpus nodes \<and>
   Load (fetchNodeTotalCpuMetrics nodes) = direct_sum NodeMetrics.CpuLoad nodes \<and>
   MemSummaryMetrics.AllocMemory (fetchNodeTotalMemMetrics nodes) = direct_sum NodeMetrics.AllocMemory nodes \<and>
   MemSummaryMetrics.FreeMemory (fetchNodeTotalMemMetrics nodes) = direct_sum NodeMetrics.FreeMemory nodes \<and>
   MemSummaryMetrics.RealMemory (fetchNodeTotalMemMetrics nodes) = direct_sum NodeMetrics.RealMemory nodes \<and>
   fetchNodeTotalCpuMetrics [] = \<lparr>Total = 0, Idle = 0, Load = 0, PerState = []\<rparr> \<and>
   fetchNodeTotalMemMetrics [] = \<lparr>AllocMemory = 0, FreeMemory = 0, RealMemory = 0\<rparr>"
  by (simp add: fetchNodeTotalCpuMetrics_def fetchNodeTotalMemMetrics_def direct_sum_def
      cpu_Total cpu_Idle cpu_Load mem_AllocMemory mem_FreeMemory mem_RealMemory)

text \<open>
  C7.  The per-state mapping of the CPU summary has exactly the state strings of the
  input as keys, each once; strings are compared as they are (\<open>''idle''\<close> and
  \<open>''IDLE''\<close> are different keys).  The value at a state is the direct sum of
  \<^verbatim>\<open>cpus\<close> over exactly the nodes whose state is that string, so a node adds its
  cpu count once, to the bucket of its own state and to no other.
\<close>

theorem per_state_buckets:
  "map_of (PerState (fetchNodeTotalCpuMetrics nodes)) st =
     (if st \<in> State ` set nodes
      then Some (direct_sum NodeMetrics.Cpus (filter (\<lambda>node. State node = st) nodes))
      else None) \<and>
   distinct (map fst (PerState (fetchNodeTotalCpuMetrics nodes)))"
  by (simp only: fetchNodeTotalCpuMetrics_PerState fetchNodeTotalCpuMetrics_distinct simp_thms)

theorem per_state_buckets_witness:
  "map_of (PerState (fetchNodeTotalCpuMetrics
      [fixture_node (f64_of_nat 4) ''idle'' [''batch''],
       fixture_node (f64_of_nat 8) ''IDLE'' [''batch'', ''gpu''],
       fixture_node (f64_of_nat 2) ''idle'' []])) ''idle'' = Some (f64_of_nat 6) \<and>
   map_of (PerState (fetchNodeTotalCpuMetrics
      [fixture_node (f64_of_nat 4) ''idle'' [''batch''],
       fixture_node (f64_of_nat 8) ''IDLE'' [''batch'', ''gpu''],
       fixture_node (f64_of_nat 2) ''idle'' []])) ''IDLE'' = Some (f64_of_nat 8) \<and>
   map_of (PerState (fetchNodeTotalCpuMetrics
      [fixture_node (f64_of_nat 4) ''idle'' [''batch''],
       fixture_node (f64_of_nat 8) ''IDLE'' [''batch'', ''gpu''],
       fixture_node (f64_of_nat 2) ''idle'' []])) ''Idle'' = None"
  using per_state_buckets [of "[fixture_node (f64_of_nat 4) ''idle'' [''batch''],
       fixture_node (f64_of_nat 8) ''IDLE'' [''batch'', ''gpu''],
       fixture_node (f64_of_nat 2) ''idle'' []]" "''idle''"]
  by (simp add: model_eval f64_eval del: One_nat_def)

text \<open>
  C8.  Reordering the input nodes never changes the keys of the mapping that
  \<open>fetchNodePartitionMetrics\<close> returns.  The totals are sums in binary64, whose
  addition rounds, so they can depend on the order: three nodes of one partition with
  cpus \<open>2\<^sup>5\<^sup>3\<close>, 1 and 1 give the total \<open>2\<^sup>5\<^sup>3\<close> in this order and
  \<open>2\<^sup>5\<^sup>3 + 2\<close> with the large one last; cpu loads 0.1, 0.2 and 0.3 give
  0.6000000000000001 in this order and 0.6 in the opposite one.  The totals are the same
  for every reordering when the counts are exact: every field of every node is a natural
  number and, field by field, the values summed over the nodes, each as often as the node
  names partitions, stay below \<open>2\<^sup>5\<^sup>3\<close>.
\<close>

theorem partition_totals_permutation:
  assumes "mset nodes' = mset nodes"
  shows "fst ` set (fetchNodePartitionMetrics nodes') = fst ` set (fetchNodePartitionMetrics nodes) \<and>
         (exact_counts nodes \<longrightarrow>
            map_of (fetchNodePartitionMetrics nodes') = map_of (fetchNodePartitionMetrics nodes))"
proof -
  from assms have same: "set nodes' = set nodes"
    by (rule mset_eq_setD)
  then have keys: "fst ` set (fetchNodePartitionMetrics nodes') = fst ` set (fetchNodePartitionMetrics nodes)"
    by (simp add: fetchNodePartitionMetrics_keys)
  have "map_of (fetchNodePartitionMetrics nodes') p = map_of (fetchNodePartitionMetrics nodes) p"
    if "exact_counts nodes" for p
    using sum_fields_perm [OF assms that, of p] same
    by (simp add: fetchNodePartitionMetrics_map_of)
  then have "exact_counts nodes \<longrightarrow>
      map_of (fetchNodePartitionMetrics nodes') = map_of (fetchNodePartitionMetrics nodes)"
    by (auto intro: ext)
  with keys show ?thesis
    by (rule conjI)
qed

theorem partition_totals_permutation_witness:
  "map_of (fetchNodePartitionMetrics (rev two_node_fixture)) =
     map_of (fetchNodePartitionMetrics two_node_fixture) \<and>
   map_of (fetchNodePartitionMetrics (rev two_node_fixture)) ''batch'' =
     Some \<lparr>Cpus = f64_of_nat 12, RealMemory = 0, FreeMemory = 0, AllocMemory = 0,
           AllocCpus = 0, CpuLoad = 0, IdleCpus = 0, Weight = 0\<rparr>"
proof -
  have perm: "mset (rev two_node_fixture) = mset two_node_fixture"
    by simp
  from partition_totals_permutation [OF perm] exact_counts_two_node_fixture
  have "map_of (fetchNodePartitionMetrics (rev two_node_fixture)) =
     map_of (fetchNodePartitionMetrics two_node_fixture)"
    by simp
  then show ?thesis
    by (simp add: two_node_partitions)
qed

theorem partition_totals_depend_on_order:
  "mset [fixture_node (f64_of_nat 1) ''idle'' [''batch''],
         fixture_node (f64_of_nat 1) ''idle'' [''batch''],
         fixture_node (f64_of_nat 9007199254740992) ''idle'' [''batch'']] =
   mset [fixture_node (f64_of_nat 9007199254740992) ''idle'' [''batch''],
         fixture_node (f64_of_nat 1) ''idle'' [''batch''],
         fixture_node (f64_of_nat 1) ''idle'' [''batch'']] \<and>
   map (\<lambda>(part, metric). (part, PartitionMetrics.Cpus metric))
     (fetchNodePartitionMetrics
        [fixture_node (f64_of_nat 9007199254740992) ''idle'' [''batch''],
         fixture_node (f64_of_nat 1) ''idle'' [''batch''],
         fixture_node (f64_of_nat 1) ''idle'' [''batch'']]) =
     [(''batch'', Finite False 1 53)] \<and>
   map (\<lambda>(part, metric). (part, PartitionMetrics.Cpus metric))
     (fetchNodePartitionMetrics
        [fixture_node (f64_of_nat 1) ''idle'' [''batch''],
         fixture_node (f64_of_nat 1) ''idle'' [''batch''],
         fixture_node (f64_of_nat 9007199254740992) ''idle'' [''batch'']]) =
     [(''batch'', Finite False 4503599627370497 1)] \<and>
   mset [load_node (Finite False 5404319552844595 (- 54)),
         load_node (Finite False 3602879701896397 (- 54)),
         load_node (Finite False 3602879701896397 (- 55))] =
   mset [load_node (Finite False 3602879701896397 (- 55)),
         load_node (Finite False 3602879701896397 (- 54)),
         load_node (Finite False 5404319552844595 (- 54))] \<and>
   map (\<lambda>(part, metric). (part, PartitionMetrics.CpuLoad metric))
     (fetchNodePartitionMetrics
        [load_node (Finite False 3602879701896397 (- 55)),
         load_node (Finite False 3602879701896397 (- 54)),
         load_node (Finite False 5404319552844595 (- 54))]) =
     [(''batch'', Finite False 1351079888211149 (- 51))] \<and>
   map (\<lambda>(part, metric). (part, PartitionMetrics.CpuLoad metric))
     (fetchNodePartitionMetrics
        [load_node (Finite False 5404319552844595 (- 54)),
         load_node (Finite False 3602879701896397 (- 54)),
         load_node (Finite False 3602879701896397 (- 55))]) =
     [(''batch'', Finite False 5404319552844595 (- 53))]"
  by (simp add: load_node_def model_eval f64_eval del: One_nat_def)

text \<open>
  C9.  The keys of the mapping returned by \<open>fetchNodePartitionMetrics\<close> are the union
  of the partition lists of the input nodes; a node with an empty partition list can be
  removed from the input without changing the result; the empty input gives the empty
  mapping.
\<close>

theorem partition_keys:
  "fst ` set (fetchNodePartitionMetrics nodes) = (\<Union>node\<in>set nodes. set (Partitions node)) \<and>
   (Partitions node = [] \<longrightarrow>
      fetchNodePartitionMetrics (before @ node # after) = fetchNodePartitionMetrics (before @ after)) \<and>
   fetchNodePartitionMetrics ([] :: 'a::{zero,plus} NodeMetrics list) = []"
  by (simp add: fetchNodePartitionMetrics_keys) (simp add: fetchNodePartitionMetrics_def)

theorem partition_keys_witness:
  "fst ` set (fetchNodePartitionMetrics
      [fixture_node (f64_of_nat 4) ''idle'' [''batch''],
       fixture_node (f64_of_nat 2) ''down'' [],
       fixture_node (f64_of_nat 8) ''alloc'' [''batch'', ''gpu'']]) = {''batch'', ''gpu''} \<and>
   fetchNodePartitionMetrics
      [fixture_node (f64_of_nat 4) ''idle'' [''batch''],
       fixture_node (f64_of_nat 2) ''down'' [],
       fixture_node (f64_of_nat 8) ''alloc'' [''batch'', ''gpu'']] =
   fetchNodePartitionMetrics
      [fixture_node (f64_of_nat 4) ''idle'' [''batch''],
       fixture_node (f64_of_nat 8) ''alloc'' [''batch'', ''gpu'']]"
  using partition_keys [of "[fixture_node (f64_of_nat 4) ''idle'' [''batch''],
       fixture_node (f64_of_nat 2) ''down'' [],
       fixture_node (f64_of_nat 8) ''alloc'' [''batch'', ''gpu'']]"
     "fixture_node (f64_of_nat 2) ''down'' []"
     "[fixture_node (f64_of_nat 4) ''idle'' [''batch'']]"
     "[fixture_node (f64_of_nat 8) ''alloc'' [''batch'', ''gpu'']]"]
  by (simp add: model_eval f64_eval insert_commute del: One_nat_def)



end
